theory Spec2Isabelle
  imports Main
begin

section \<open>Data model of \<open>example_extension/example.py\<close>\<close>

text \<open>
  The extension answers two calls of the host: \<open>validateCredentials\<close> and
  \<open>getAccountConfiguration\<close>, both reading a dictionary of accounts that is given to the
  constructor and never written. Python's \<open>True\<close>, \<open>False\<close> and \<open>None\<close>, returned by
  \<open>validateCredentials\<close>, are the three verdicts.
\<close>

datatype verdict = Accepted | Rejected | Indeterminate

text \<open>
  Exceptions are values. \<open>ExternalAuthenticationException\<close> and \<open>AssertionError\<close> are
  raised by the code itself, \<open>KeyError\<close> by a dictionary read of a key that is not there
  (its argument is the key), \<open>AttributeError\<close> by reading an attribute that a credentials
  object does not have. \<open>OtherException\<close> stands for whatever a certificate's
  \<open>get_subject()\<close> may raise.
\<close>

datatype exn =
    ExternalAuthenticationException string
  | AssertionError string
  | KeyError string
  | AttributeError string
  | OtherException string

text \<open>The three credential interfaces of the host, tested with \<open>providedBy\<close>.\<close>

datatype interface = IPasswordCredentials | ISSHKeyCredentials | ISSLCertificateCredentials

text \<open>
  A certificate is an object of the host: the code calls \<open>get_subject()\<close> on it, inside
  a \<open>try\<close>, and reads \<open>commonName\<close> of the subject returned, in the \<open>else\<close> branch of
  that \<open>try\<close>. Either may raise, and the common name of a subject may be \<open>None\<close>.
\<close>

datatype x509name = X509Name (commonName: "exn + string option")

datatype certificate = Certificate (get_subject: "exn + x509name")

text \<open>
  Credentials carry a username and, by the interface they provide, a password, key data
  or a certificate. Key data and certificate may be \<open>None\<close> (\<open>not credentials.key_data\<close>,
  \<open>not credentials.certificate\<close>). \<open>OtherCredentials\<close> provides none of the three
  interfaces.
\<close>

datatype credentials =
    PasswordCredentials string string
  | SSHKeyCredentials string "string option"
  | SSLCertificateCredentials string "certificate option"
  | OtherCredentials string

fun username :: "credentials \<Rightarrow> string" where
  "username (PasswordCredentials u p) = u"
| "username (SSHKeyCredentials u k) = u"
| "username (SSLCertificateCredentials u c) = u"
| "username (OtherCredentials u) = u"

fun providedBy :: "interface \<Rightarrow> credentials \<Rightarrow> bool" where
  "providedBy IPasswordCredentials (PasswordCredentials u p) = True"
| "providedBy ISSHKeyCredentials (SSHKeyCredentials u k) = True"
| "providedBy ISSLCertificateCredentials (SSLCertificateCredentials u c) = True"
| "providedBy i c = False"

text \<open>
  An account is a dictionary; every key may be missing (\<open>user3\<close> has \<open>denied\<close> only,
  \<open>user4\<close> has \<open>internal_error\<close> only, and the code asks \<open>'denied' in user_data\<close>).
  A field is \<open>None\<close> when the key is not in the dictionary.
\<close>

record configuration_data =
  cfg_create_home_folder :: "bool option"
  cfg_home_folder_path :: "string option"

record user_data =
  password :: "string option"
  ssh_keys :: "string list option"
  allow_certificate :: "bool option"
  enabled_credentials :: "interface list option"
  configuration :: "configuration_data option"
  denied :: "bool option"
  internal_error :: "bool option"

type_synonym users_database = "string \<rightharpoonup> user_data"

text \<open>\<open>d[k]\<close>: the value, or \<open>KeyError(k)\<close> when the key is missing.\<close>

definition getitem :: "string \<Rightarrow> 'a option \<Rightarrow> exn + 'a" where
  "getitem k v = (case v of None \<Rightarrow> Inl (KeyError k) | Some x \<Rightarrow> Inr x)"

text \<open>Truthiness of a string that may be \<open>None\<close>.\<close>

definition truthy :: "string option \<Rightarrow> bool" where
  "truthy s = (case s of None \<Rightarrow> False | Some x \<Rightarrow> x \<noteq> [])"

subsection \<open>The table of the module\<close>

definition SSH_PUB1 :: string where
  "SSH_PUB1 =
     ''ssh-rsa '' @
     ''AAAAB3NzaC1yc2EAAAABJQAAAIEAhXRMOofqtrJpleleYXnOCRm5X1l2EeIpIFIQPYu'' @
     ''HI9pvGsTlk8KrVw+Lh6Jj1h58EbL9uPAr/F+Cj2MkY/ScgpXinQTggZp+PqEes8Optv6YcMTCp5p'' @
     ''NbKmmw61pEujU334pfP6LGLRdHRacq3vYK28klJDmos6tDccYmjRwEHM= '' @
     ''key-comments''"

definition no_fields :: user_data where
  "no_fields =
     \<lparr>password = None, ssh_keys = None, allow_certificate = None,
      enabled_credentials = None, configuration = None, denied = None,
      internal_error = None\<rparr>"

definition user1 :: user_data where
  "user1 =
     no_fields\<lparr>password := Some ''password1'',
       ssh_keys := Some [SSH_PUB1, SSH_PUB1],
       allow_certificate := Some False,
       configuration := Some \<lparr>cfg_create_home_folder = Some False,
         cfg_home_folder_path = Some ''/tmp''\<rparr>\<rparr>"

definition user2 :: user_data where
  "user2 =
     no_fields\<lparr>password := Some [],
       ssh_keys := Some [],
       allow_certificate := Some True,
       enabled_credentials :=
         Some [IPasswordCredentials, ISSHKeyCredentials, ISSLCertificateCredentials],
       configuration := Some \<lparr>cfg_create_home_folder = Some True,
         cfg_home_folder_path = Some ''/tmp/user2''\<rparr>\<rparr>"

definition user3 :: user_data where
  "user3 = no_fields\<lparr>denied := Some True\<rparr>"

definition user4 :: user_data where
  "user4 = no_fields\<lparr>internal_error := Some True\<rparr>"

definition USERS :: users_database where
  "USERS = [''user1'' \<mapsto> user1, ''user2'' \<mapsto> user2, ''user3'' \<mapsto> user3,
     ''user4'' \<mapsto> user4]"

section \<open>The avatar\<close>

record InMemoryExternalAvatar =
  avatar_name :: string
  avatar_configuration :: configuration_data

definition name :: "InMemoryExternalAvatar \<Rightarrow> string" where
  "name self = avatar_name self"

definition create_home_folder :: "InMemoryExternalAvatar \<Rightarrow> exn + bool" where
  "create_home_folder self =
     getitem ''create_home_folder'' (cfg_create_home_folder (avatar_configuration self))"

definition home_folder_path :: "InMemoryExternalAvatar \<Rightarrow> exn + string" where
  "home_folder_path self =
     getitem ''home_folder_path'' (cfg_home_folder_path (avatar_configuration self))"

section \<open>Validation of credentials\<close>

text \<open>
  \<open>_validatePasswordCredentials\<close>: \<open>None\<close> for an empty supplied password, then the
  stored password is read (a \<open>KeyError\<close> when the account or its \<open>password\<close> is missing).
\<close>

fun validatePasswordCredentials :: "users_database \<Rightarrow> credentials \<Rightarrow> exn + verdict" where
  "validatePasswordCredentials db (PasswordCredentials u p) =
     (if p = [] then Inr Indeterminate
      else
        (case getitem u (db u) of
          Inl e \<Rightarrow> Inl e
        | Inr user \<Rightarrow>
            (case getitem ''password'' (password user) of
              Inl e \<Rightarrow> Inl e
            | Inr stored \<Rightarrow>
                if stored = [] then Inr Rejected
                else if p = stored then Inr Accepted
                else Inr Rejected)))"
| "validatePasswordCredentials db c = Inl (AttributeError ''password'')"

text \<open>
  \<open>_validateSSHCredentials\<close>. The check \<open>is_key_authorized\<close> is imported from the host
  (\<open>chevah.server.extensions\<close>) and is a parameter here.
\<close>

fun validateSSHCredentials ::
  "(credentials \<Rightarrow> string list \<Rightarrow> bool) \<Rightarrow> users_database \<Rightarrow> credentials \<Rightarrow> exn + verdict"
where
  "validateSSHCredentials is_key_authorized db (SSHKeyCredentials u k) =
     (if \<not> truthy k then Inr Rejected
      else
        (case getitem u (db u) of
          Inl e \<Rightarrow> Inl e
        | Inr user \<Rightarrow>
            (case getitem ''ssh_keys'' (ssh_keys user) of
              Inl e \<Rightarrow> Inl e
            | Inr keys \<Rightarrow>
                if keys = [] then Inr Rejected
                else if is_key_authorized (SSHKeyCredentials u k) keys then Inr Accepted
                else Inr Rejected)))"
| "validateSSHCredentials is_key_authorized db c = Inl (AttributeError ''key_data'')"

text \<open>
  \<open>_validateSSLCredentials\<close>. Only \<open>get_subject()\<close> is inside the \<open>try\<close>; the bare
  \<open>except\<close> turns whatever it raises into \<open>False\<close>. The read of \<open>commonName\<close> and the
  comparison are the \<open>else\<close> branch of the \<open>try\<close>, which the \<open>except\<close> does not cover:
  what the read raises leaves the function.
\<close>

fun validateSSLCredentials :: "users_database \<Rightarrow> credentials \<Rightarrow> exn + verdict" where
  "validateSSLCredentials db (SSLCertificateCredentials u cert) =
     (case cert of
       None \<Rightarrow> Inr Rejected
     | Some x509 \<Rightarrow>
         (case getitem u (db u) of
           Inl e \<Rightarrow> Inl e
         | Inr user \<Rightarrow>
             (case getitem ''allow_certificate'' (allow_certificate user) of
               Inl e \<Rightarrow> Inl e
             | Inr allowed \<Rightarrow>
                 if \<not> allowed then Inr Rejected
                 else
                   (case get_subject x509 of
                     Inl e \<Rightarrow> Inr Rejected
                   | Inr subject \<Rightarrow>
                       (case commonName subject of
                         Inl e \<Rightarrow> Inl e
                       | Inr common_name \<Rightarrow>
                           if common_name = Some u then Inr Accepted
                           else Inr Rejected)))))"
| "validateSSLCredentials db c = Inl (AttributeError ''certificate'')"

definition denied_message :: "string \<Rightarrow> string" where
  "denied_message u = ''Acount '' @ [CHR 0x22] @ u @ [CHR 0x22] @ '' is denied.''"

definition internal_error_message :: "string \<Rightarrow> string" where
  "internal_error_message u =
     ''Internal server error for '' @ [CHR 0x22] @ u @ [CHR 0x22] @ ''.''"

text \<open>
  \<open>validateCredentials\<close>. The argument \<open>service_configuration\<close> is never read and is left
  out. \<open>Inl\<close> is a raised exception, \<open>Inr\<close> the value returned.
\<close>

definition validateCredentials ::
  "(credentials \<Rightarrow> string list \<Rightarrow> bool) \<Rightarrow> users_database \<Rightarrow> credentials \<Rightarrow> exn + verdict"
where
  "validateCredentials is_key_authorized db credentials =
     (case db (username credentials) of
       None \<Rightarrow> Inr Rejected
     | Some user_data \<Rightarrow>
         if denied user_data = Some True then
           Inl (ExternalAuthenticationException (denied_message (username credentials)))
         else if internal_error user_data = Some True then
           Inl (AssertionError (internal_error_message (username credentials)))
         else if providedBy IPasswordCredentials credentials then
           validatePasswordCredentials db credentials
         else if providedBy ISSHKeyCredentials credentials then
           validateSSHCredentials is_key_authorized db credentials
         else if providedBy ISSLCertificateCredentials credentials then
           validateSSLCredentials db credentials
         else Inr Rejected)"

section \<open>Account configuration\<close>

text \<open>
  \<open>getAccountConfiguration\<close>: both dictionary reads are inside the \<open>try\<close>, and a
  \<open>KeyError\<close> of either gives \<open>None\<close>.
\<close>

definition getAccountConfiguration ::
  "users_database \<Rightarrow> credentials \<Rightarrow> exn + InMemoryExternalAvatar option"
where
  "getAccountConfiguration db credentials =
     (case
        (case getitem (username credentials) (db (username credentials)) of
          Inl e \<Rightarrow> Inl e
        | Inr user \<Rightarrow> getitem ''configuration'' (configuration user))
      of
        Inl (KeyError k) \<Rightarrow> Inr None
      | Inl e \<Rightarrow> Inl e
      | Inr c \<Rightarrow>
          Inr (Some \<lparr>avatar_name = username credentials, avatar_configuration = c\<rparr>))"

section \<open>The key check of the host\<close>

text \<open>
  Modelled from the spec: \<open>is_key_authorized\<close> of \<open>chevah.server.extensions\<close>, which
  this repository imports and does not contain. By the spec, the supplied key is
  authorized when it matches any stored key, by a check of one key against another that is
  defined by the host; that check is the parameter \<open>key_matches\<close>.
\<close>

definition is_key_authorized ::
  "(string \<Rightarrow> string \<Rightarrow> bool) \<Rightarrow> credentials \<Rightarrow> string list \<Rightarrow> bool"
where
  "is_key_authorized key_matches credentials keys =
     (case credentials of
       SSHKeyCredentials u (Some k) \<Rightarrow> list_ex (key_matches k) keys
     | _ \<Rightarrow> False)"

section \<open>Properties of \<open>validateCredentials\<close>\<close>

text \<open>
  C7. Whatever the credentials (any interface, any payload), a username that is not a key
  of the table gives \<open>False\<close>, the verdict Rejected, and nothing is raised.
\<close>

theorem unknown_username_rejected:
  "db (username c) = None \<Longrightarrow> validateCredentials ika db c = Inr Rejected"
  by (simp add: validateCredentials_def)

theorem unknown_username_rejected_witness:
  "USERS ''user9'' = None
 \<and> validateCredentials (\<lambda>c ks. True) USERS (SSHKeyCredentials ''user9'' (Some SSH_PUB1)) =
     Inr Rejected"
  using unknown_username_rejected
    [of USERS "SSHKeyCredentials ''user9'' (Some SSH_PUB1)" "\<lambda>c ks. True"]
  by (simp add: USERS_def)

text \<open>
  C9. An account with both \<open>denied\<close> and \<open>internal_error\<close> set raises
  \<open>ExternalAuthenticationException\<close> (the spec's AccountDenied), not \<open>AssertionError\<close>:
  the test of \<open>denied\<close> comes first.
\<close>

theorem denied_before_internal_error:
  "db (username c) = Some a \<Longrightarrow> denied a = Some True \<Longrightarrow> internal_error a = Some True \<Longrightarrow>
   validateCredentials ika db c =
     Inl (ExternalAuthenticationException (denied_message (username c)))"
  by (simp add: validateCredentials_def)

theorem denied_before_internal_error_witness:
  "validateCredentials (\<lambda>c ks. True)
     [''user3'' \<mapsto> user3\<lparr>internal_error := Some True\<rparr>]
     (PasswordCredentials ''user3'' ''secret'') =
   Inl (ExternalAuthenticationException (denied_message ''user3''))"
  using denied_before_internal_error
    [of "[''user3'' \<mapsto> user3\<lparr>internal_error := Some True\<rparr>]"
      "PasswordCredentials ''user3'' ''secret''" "user3\<lparr>internal_error := Some True\<rparr>"
      "\<lambda>c ks. True"]
  by (simp add: user3_def no_fields_def)

subsection \<open>What \<open>validateCredentials\<close> does when every read succeeds\<close>

text \<open>
  A denied account raises \<open>ExternalAuthenticationException\<close>, and otherwise an account in
  internal error raises \<open>AssertionError\<close>, whatever the interface and the payload of the
  credentials and whatever the other keys of the account: both tests come before the
  dispatch on the interface.
\<close>

lemma denied_or_internal_error_raises:
  "db (username c) = Some a \<Longrightarrow>
   (denied a = Some True \<longrightarrow>
      validateCredentials ika db c =
        Inl (ExternalAuthenticationException (denied_message (username c))))
 \<and> (denied a \<noteq> Some True \<and> internal_error a = Some True \<longrightarrow>
      validateCredentials ika db c =
        Inl (AssertionError (internal_error_message (username c))))"
  by (simp add: validateCredentials_def)

text \<open>
  Password credentials, for an account that is neither denied nor in internal error. The
  second and third parts are about an account that has the key \<open>password\<close>.
\<close>

lemma password_verdict:
  "db u = Some a \<Longrightarrow> denied a \<noteq> Some True \<Longrightarrow> internal_error a \<noteq> Some True \<Longrightarrow>
   (p = [] \<longrightarrow> validateCredentials ika db (PasswordCredentials u p) = Inr Indeterminate)
 \<and> (p \<noteq> [] \<and> password a = Some [] \<longrightarrow>
      validateCredentials ika db (PasswordCredentials u p) = Inr Rejected)
 \<and> (p \<noteq> [] \<and> password a = Some stored \<and> stored \<noteq> [] \<longrightarrow>
      validateCredentials ika db (PasswordCredentials u p) =
        Inr (if p = stored then Accepted else Rejected))"
  by (simp add: validateCredentials_def getitem_def)

lemma password_verdict_USERS:
  "validateCredentials (\<lambda>c ks. True) USERS (PasswordCredentials ''user1'' []) =
     Inr Indeterminate
 \<and> validateCredentials (\<lambda>c ks. True) USERS (PasswordCredentials ''user2'' ''password2'') =
     Inr Rejected
 \<and> validateCredentials (\<lambda>c ks. True) USERS (PasswordCredentials ''user1'' ''password1'') =
     Inr Accepted
 \<and> validateCredentials (\<lambda>c ks. True) USERS (PasswordCredentials ''user1'' ''password2'') =
     Inr Rejected"
  using
    password_verdict [of USERS "''user1''" user1 "[]" "\<lambda>c ks. True" "''password1''"]
    password_verdict [of USERS "''user2''" user2 "''password2''" "\<lambda>c ks. True" "[]"]
    password_verdict
      [of USERS "''user1''" user1 "''password1''" "\<lambda>c ks. True" "''password1''"]
    password_verdict
      [of USERS "''user1''" user1 "''password2''" "\<lambda>c ks. True" "''password1''"]
  by (simp add: USERS_def user1_def user2_def no_fields_def)

text \<open>
  SSH key credentials, for an account that is neither denied nor in internal error. The
  second and third parts are about an account that has the key \<open>ssh_keys\<close>.
\<close>

lemma ssh_key_verdict:
  "db u = Some a \<Longrightarrow> denied a \<noteq> Some True \<Longrightarrow> internal_error a \<noteq> Some True \<Longrightarrow>
   (k = None \<or> k = Some [] \<longrightarrow>
      validateCredentials ika db (SSHKeyCredentials u k) = Inr Rejected)
 \<and> (k = Some d \<and> d \<noteq> [] \<and> ssh_keys a = Some [] \<longrightarrow>
      validateCredentials ika db (SSHKeyCredentials u k) = Inr Rejected)
 \<and> (k = Some d \<and> d \<noteq> [] \<and> ssh_keys a = Some keys \<and> keys \<noteq> [] \<longrightarrow>
      validateCredentials ika db (SSHKeyCredentials u k) =
        Inr (if ika (SSHKeyCredentials u k) keys then Accepted else Rejected))"
  by (auto simp: validateCredentials_def getitem_def truthy_def)

text \<open>
  Certificate credentials, for an account that is neither denied nor in internal error.
  All parts but the first are about an account that has the key \<open>allow_certificate\<close>; the
  last two are about a subject whose \<open>commonName\<close> is read.
\<close>

lemma certificate_verdict:
  "db u = Some a \<Longrightarrow> denied a \<noteq> Some True \<Longrightarrow> internal_error a \<noteq> Some True \<Longrightarrow>
   validateCredentials ika db (SSLCertificateCredentials u None) = Inr Rejected
 \<and> (allow_certificate a = Some False \<longrightarrow>
      validateCredentials ika db (SSLCertificateCredentials u (Some x509)) = Inr Rejected)
 \<and> (allow_certificate a = Some True \<and> get_subject x509 = Inl e \<longrightarrow>
      validateCredentials ika db (SSLCertificateCredentials u (Some x509)) = Inr Rejected)
 \<and> (allow_certificate a = Some True \<and> get_subject x509 = Inr subject
      \<and> commonName subject = Inr cn \<longrightarrow>
      validateCredentials ika db (SSLCertificateCredentials u (Some x509)) =
        Inr (if cn = Some u then Accepted else Rejected))
 \<and> (allow_certificate a = Some True \<and> get_subject x509 = Inr subject
      \<and> commonName subject = Inl e' \<longrightarrow>
      validateCredentials ika db (SSLCertificateCredentials u (Some x509)) = Inl e')"
  by (simp add: validateCredentials_def getitem_def)

lemma certificate_verdict_USERS:
  "validateCredentials (\<lambda>c ks. True) USERS (SSLCertificateCredentials ''user2'' None) =
     Inr Rejected
 \<and> validateCredentials (\<lambda>c ks. True) USERS
     (SSLCertificateCredentials ''user1''
        (Some (Certificate (Inr (X509Name (Inr (Some ''user1''))))))) = Inr Rejected
 \<and> validateCredentials (\<lambda>c ks. True) USERS
     (SSLCertificateCredentials ''user2''
        (Some (Certificate (Inl (OtherException ''no subject''))))) = Inr Rejected
 \<and> validateCredentials (\<lambda>c ks. True) USERS
     (SSLCertificateCredentials ''user2''
        (Some (Certificate (Inr (X509Name (Inr (Some ''user2''))))))) = Inr Accepted
 \<and> validateCredentials (\<lambda>c ks. True) USERS
     (SSLCertificateCredentials ''user2''
        (Some (Certificate (Inr (X509Name (Inr None)))))) = Inr Rejected"
  using
    certificate_verdict
      [of USERS "''user2''" user2 "\<lambda>c ks. True"
        "Certificate (Inr (X509Name (Inr (Some ''user2''))))" "OtherException ''no subject''"
        "X509Name (Inr (Some ''user2''))" "Some ''user2''"]
    certificate_verdict
      [of USERS "''user1''" user1 "\<lambda>c ks. True"
        "Certificate (Inr (X509Name (Inr (Some ''user1''))))"]
    certificate_verdict
      [of USERS "''user2''" user2 "\<lambda>c ks. True"
        "Certificate (Inl (OtherException ''no subject''))" "OtherException ''no subject''"]
    certificate_verdict
      [of USERS "''user2''" user2 "\<lambda>c ks. True"
        "Certificate (Inr (X509Name (Inr None)))" "OtherException ''no subject''"
        "X509Name (Inr None)" None]
  by (simp add: USERS_def user1_def user2_def no_fields_def)

subsection \<open>Reads that are not guarded\<close>

text \<open>
  C1. The claim: for a username in the table, \<open>validateCredentials\<close> raises exactly when
  the account is denied or in internal error, and returns a verdict on every other input.
  The code departs from it: the account \<open>{'denied': False}\<close> is neither denied nor in
  internal error, and a password that is not empty raises \<open>KeyError\<close>, since
  \<open>_validatePasswordCredentials\<close> reads the key \<open>password\<close> without a guard.
\<close>

theorem missing_password_key_raises:
  "denied (no_fields\<lparr>denied := Some False\<rparr>) = Some False
 \<and> internal_error (no_fields\<lparr>denied := Some False\<rparr>) = None
 \<and> validateCredentials (\<lambda>c ks. False) [''user5'' \<mapsto> no_fields\<lparr>denied := Some False\<rparr>]
     (PasswordCredentials ''user5'' ''password5'') = Inl (KeyError ''password'')"
  by (simp add: validateCredentials_def getitem_def no_fields_def)

text \<open>
  C2. The claim: password credentials for an account of the table that is neither denied
  nor in internal error always get a verdict (Indeterminate, Rejected or Accepted). The
  code departs from it: added to the module's table, the account
  \<open>{'ssh_keys': [SSH_PUB1], 'allow_certificate': True}\<close> has no \<open>password\<close>, and a supplied
  password that is not empty raises \<open>KeyError\<close> where the claim gives Rejected.
\<close>

theorem password_check_raises_KeyError:
  "denied (no_fields\<lparr>ssh_keys := Some [SSH_PUB1], allow_certificate := Some True\<rparr>) = None
 \<and> internal_error (no_fields\<lparr>ssh_keys := Some [SSH_PUB1], allow_certificate := Some True\<rparr>)
     = None
 \<and> validateCredentials (\<lambda>c ks. True)
     (USERS(''user5'' \<mapsto>
        no_fields\<lparr>ssh_keys := Some [SSH_PUB1], allow_certificate := Some True\<rparr>))
     (PasswordCredentials ''user5'' ''password5'') = Inl (KeyError ''password'')"
  by (simp add: validateCredentials_def getitem_def no_fields_def)

text \<open>
  C3. The claim: certificate credentials for an account of the table that is neither
  denied nor in internal error always get a verdict, Accepted when the common name is the
  username and Rejected otherwise. The code departs from it twice. The account
  \<open>{'password': 'password5'}\<close> has no \<open>allow_certificate\<close>, and a supplied certificate
  raises \<open>KeyError\<close>. For \<open>user2\<close> of the module's table, which allows certificates, a
  certificate whose subject raises when \<open>commonName\<close> is read makes \<open>validateCredentials\<close>
  raise the same exception: the read is outside the \<open>try\<close>.
\<close>

theorem certificate_check_raises:
  "validateCredentials (\<lambda>c ks. True) [''user5'' \<mapsto> no_fields\<lparr>password := Some ''password5''\<rparr>]
     (SSLCertificateCredentials ''user5''
        (Some (Certificate (Inr (X509Name (Inr (Some ''user5''))))))) =
     Inl (KeyError ''allow_certificate'')
 \<and> validateCredentials (\<lambda>c ks. True) USERS
     (SSLCertificateCredentials ''user2''
        (Some (Certificate (Inr (X509Name (Inl (AttributeError ''commonName''))))))) =
     Inl (AttributeError ''commonName'')"
  by (simp add: validateCredentials_def getitem_def no_fields_def USERS_def user2_def)

text \<open>
  C4. The claim: for certificate credentials that reach the extraction of the subject, any
  fault raised while the common name of the subject is extracted gives Rejected and never
  leaves \<open>validateCredentials\<close>. The code does so for \<open>get_subject()\<close> only. For \<open>user2\<close>
  of the module's table (in the table, not denied, not in internal error,
  \<open>allow_certificate\<close> true), a supplied certificate whose \<open>get_subject()\<close> returns a
  subject, and whose subject raises when \<open>commonName\<close> is read, makes \<open>validateCredentials\<close>
  raise that exception.
\<close>

theorem commonName_fault_propagates:
  "USERS ''user2'' = Some user2
 \<and> denied user2 = None \<and> internal_error user2 = None \<and> allow_certificate user2 = Some True
 \<and> get_subject (Certificate (Inr (X509Name (Inl (OtherException ''commonName''))))) =
     Inr (X509Name (Inl (OtherException ''commonName'')))
 \<and> validateCredentials (\<lambda>c ks. True) USERS
     (SSLCertificateCredentials ''user2''
        (Some (Certificate (Inr (X509Name (Inl (OtherException ''commonName''))))))) =
     Inl (OtherException ''commonName'')"
  by (simp add: validateCredentials_def getitem_def no_fields_def USERS_def user2_def)

text \<open>
  What of C4 the code does: whatever \<open>get_subject()\<close> raises, the verdict is Rejected and
  nothing is raised.
\<close>

lemma get_subject_fault_rejected:
  "db u = Some a \<Longrightarrow> denied a \<noteq> Some True \<Longrightarrow> internal_error a \<noteq> Some True \<Longrightarrow>
   allow_certificate a = Some True \<Longrightarrow> get_subject x509 = Inl e \<Longrightarrow>
   validateCredentials ika db (SSLCertificateCredentials u (Some x509)) = Inr Rejected"
  by (simp add: validateCredentials_def getitem_def)

text \<open>
  C5. The claim: SSH key credentials for an account of the table that is neither denied
  nor in internal error always get a verdict (Rejected or Accepted). The code departs from
  it: the account \<open>{'password': 'password5'}\<close> has no \<open>ssh_keys\<close>, and supplied key data
  raise \<open>KeyError\<close> where the claim gives a verdict.
\<close>

theorem ssh_check_raises_KeyError:
  "denied (no_fields\<lparr>password := Some ''password5''\<rparr>) = None
 \<and> internal_error (no_fields\<lparr>password := Some ''password5''\<rparr>) = None
 \<and> validateCredentials (\<lambda>c ks. True) [''user5'' \<mapsto> no_fields\<lparr>password := Some ''password5''\<rparr>]
     (SSHKeyCredentials ''user5'' (Some ''ssh-rsa AAAA'')) = Inl (KeyError ''ssh_keys'')"
  by (simp add: validateCredentials_def getitem_def no_fields_def truthy_def)

subsection \<open>Duplicate keys\<close>

text \<open>
  C6. With \<open>is_key_authorized\<close> as the spec describes it (the supplied key matches any
  stored key), a stored list that is not empty and the same list with one of its keys
  appended once more give the same result of \<open>validateCredentials\<close> for every SSH key
  credentials; so a key that is Accepted stays Accepted.
\<close>

theorem ssh_duplicate_key_same_verdict:
  "db u = Some a \<Longrightarrow> ssh_keys a = Some keys \<Longrightarrow> keys \<noteq> [] \<Longrightarrow> k \<in> set keys \<Longrightarrow>
   validateCredentials (is_key_authorized key_matches)
     (db(u \<mapsto> a\<lparr>ssh_keys := Some (keys @ [k])\<rparr>)) (SSHKeyCredentials u kd) =
   validateCredentials (is_key_authorized key_matches) db (SSHKeyCredentials u kd)"
  by (auto simp: validateCredentials_def getitem_def truthy_def is_key_authorized_def
      list_ex_iff split: option.splits)

theorem ssh_duplicate_key_same_verdict_witness:
  "validateCredentials (is_key_authorized (=))
     [''user1'' \<mapsto> user1\<lparr>ssh_keys := Some [SSH_PUB1]\<rparr>]
     (SSHKeyCredentials ''user1'' (Some SSH_PUB1)) = Inr Accepted
 \<and> validateCredentials (is_key_authorized (=))
     [''user1'' \<mapsto> user1\<lparr>ssh_keys := Some [SSH_PUB1, SSH_PUB1]\<rparr>]
     (SSHKeyCredentials ''user1'' (Some SSH_PUB1)) = Inr Accepted"
proof -
  have pub: "SSH_PUB1 \<noteq> []"
    by (simp add: SSH_PUB1_def)
  show ?thesis
    using pub
      ssh_duplicate_key_same_verdict
        [of "[''user1'' \<mapsto> user1\<lparr>ssh_keys := Some [SSH_PUB1]\<rparr>]" "''user1''"
          "user1\<lparr>ssh_keys := Some [SSH_PUB1]\<rparr>" "[SSH_PUB1]" SSH_PUB1 "(=)"
          "Some SSH_PUB1"]
    by (simp add: validateCredentials_def getitem_def truthy_def is_key_authorized_def
        user1_def no_fields_def)
qed

section \<open>Properties of \<open>getAccountConfiguration\<close>\<close>

text \<open>
  C8. For a username in the table: an account without \<open>configuration\<close> gives \<open>None\<close>
  and nothing is raised; an account with a configuration gives an avatar whose name is the
  username and whose \<open>create_home_folder\<close> and \<open>home_folder_path\<close> are the values of the
  configuration.
\<close>

theorem getAccountConfiguration_known:
  "db (username c) = Some a \<Longrightarrow>
   (configuration a = None \<longrightarrow> getAccountConfiguration db c = Inr None)
 \<and> (configuration a = Some cfg \<and> cfg_create_home_folder cfg = Some b
      \<and> cfg_home_folder_path cfg = Some path \<longrightarrow>
      (\<exists>av. getAccountConfiguration db c = Inr (Some av)
        \<and> name av = username c
        \<and> create_home_folder av = Inr b
        \<and> home_folder_path av = Inr path))"
  by (simp add: getAccountConfiguration_def getitem_def name_def create_home_folder_def
      home_folder_path_def)

theorem getAccountConfiguration_known_witness:
  "getAccountConfiguration USERS (PasswordCredentials ''user3'' ''secret'') = Inr None
 \<and> (\<exists>av. getAccountConfiguration USERS (PasswordCredentials ''user1'' ''password1'') =
        Inr (Some av)
      \<and> name av = ''user1''
      \<and> create_home_folder av = Inr False
      \<and> home_folder_path av = Inr ''/tmp'')"
  using
    getAccountConfiguration_known
      [of USERS "PasswordCredentials ''user3'' ''secret''" user3]
    getAccountConfiguration_known
      [of USERS "PasswordCredentials ''user1'' ''password1''" user1
        "\<lparr>cfg_create_home_folder = Some False, cfg_home_folder_path = Some ''/tmp''\<rparr>"
        False "''/tmp''"]
  by (simp add: USERS_def user1_def user3_def no_fields_def)

text \<open>
  C10. A username that is not in the table gives \<open>None\<close> and nothing is raised, which is
  also what an account of the table without \<open>configuration\<close> gives.
\<close>

theorem getAccountConfiguration_unknown:
  "db (username c) = None \<Longrightarrow> db' (username c') = Some a \<Longrightarrow> configuration a = None \<Longrightarrow>
   getAccountConfiguration db c = Inr None
 \<and> getAccountConfiguration db' c' = getAccountConfiguration db c"
  by (simp add: getAccountConfiguration_def getitem_def)

theorem getAccountConfiguration_unknown_witness:
  "getAccountConfiguration USERS (OtherCredentials ''user9'') = Inr None
 \<and> getAccountConfiguration USERS (OtherCredentials ''user4'') =
     getAccountConfiguration USERS (OtherCredentials ''user9'')"
  using getAccountConfiguration_unknown
    [of USERS "OtherCredentials ''user9''" USERS "OtherCredentials ''user4''" user4]
  by (simp add: USERS_def user4_def no_fields_def)

end
